theory Spec2Isabelle
  imports Main "HOL-Library.Word"
begin

section \<open>Data model (types.ts and the browser objects the app holds)\<close>

text \<open>
  JavaScript strings are modelled as \<open>string\<close>: every string operation of the source
  (\<open>endsWith\<close>, \<open>substring\<close>, \<open>split\<close>, template concatenation) works position by
  position, so one list element stands for one code unit.
\<close>

datatype AppStep = UPLOAD_MODEL | INPUT_AUDIO | ANALYZING | RESULTS

text \<open>
  \<open>JSON.parse(text) as ClassificationResult\<close> is a compile-time cast only: at run time a
  result is whatever JSON value was parsed. \<open>JNull\<close> is JavaScript's \<open>null\<close>. The number
  type is a parameter, the modelled functions never compute with a result's numbers.
\<close>

datatype 'n json =
    JNull
  | JBool bool
  | JNum 'n
  | JStr string
  | JArr "'n json list"
  | JObj "(string \<times> 'n json) list"

text \<open>
  The interface \<open>ClassificationResult\<close> of types.ts, as a predicate on run-time values:
  an object with a string \<open>label\<close>, a number \<open>accuracy\<close>, an array \<open>probabilities\<close>
  of objects with a string \<open>name\<close> and a number \<open>value\<close>, and a string
  \<open>explanation\<close>. The program never evaluates it.
\<close>

fun field :: "'n json \<Rightarrow> string \<Rightarrow> 'n json option" where
  "field (JObj fs) k = map_of fs k"
| "field v k = None"

definition is_string :: "'n json option \<Rightarrow> bool" where
  "is_string v = (case v of Some (JStr s) \<Rightarrow> True | _ \<Rightarrow> False)"

definition is_number :: "'n json option \<Rightarrow> bool" where
  "is_number v = (case v of Some (JNum n) \<Rightarrow> True | _ \<Rightarrow> False)"

definition is_probabilities :: "'n json option \<Rightarrow> bool" where
  "is_probabilities v =
     (case v of
        Some (JArr ps) \<Rightarrow> list_all (\<lambda>p. is_string (field p ''name'') \<and> is_number (field p ''value'')) ps
      | _ \<Rightarrow> False)"

definition is_ClassificationResult :: "'n json \<Rightarrow> bool" where
  "is_ClassificationResult v =
     (is_string (field v ''label'') \<and> is_number (field v ''accuracy'')
      \<and> is_probabilities (field v ''probabilities'') \<and> is_string (field v ''explanation''))"

record ModelMetadata =
  name :: string
  size_bytes :: nat
  content :: string

text \<open>A \<open>Blob\<close> is its MIME type and its bytes; a \<open>File\<close> is a blob with a name.\<close>

record Blob =
  blob_type :: string
  bytes :: "8 word list"

record File =
  file_name :: string
  file_blob :: Blob

definition blob_size :: "Blob \<Rightarrow> nat" where
  "blob_size b = length (bytes b)"

datatype Theme = dark | light

text \<open>A \<open>MediaStream\<close> is an object identity; its tracks live in the browser (below).\<close>

type_synonym MediaStream = nat

datatype RecordingState = inactive | recording

record MediaRecorder =
  rec_stream :: MediaStream
  rec_state :: RecordingState

text \<open>
  The state of the \<open>App\<close> component: its eight \<open>useState\<close> cells and its two refs.
  \<open>None\<close> is \<open>null\<close> (\<open>undefined\<close> for \<open>recordingStream\<close>).
\<close>

record 'n AppState =
  currentStep :: AppStep
  modelData :: "ModelMetadata option"
  audioFile :: "Blob option"
  isRecording :: bool
  recordingStream :: "MediaStream option"
  result :: "'n json"
  error :: "string option"
  theme :: Theme
  mediaRecorderRef :: "MediaRecorder option"
  chunksRef :: "Blob list"

definition initial_state :: "'n AppState" where
  "initial_state =
     \<lparr>currentStep = UPLOAD_MODEL, modelData = None, audioFile = None, isRecording = False,
      recordingStream = None, result = JNull, error = None, theme = dark,
      mediaRecorderRef = None, chunksRef = []\<rparr>"

definition toggleTheme :: "'n AppState \<Rightarrow> 'n AppState" where
  "toggleTheme s = s\<lparr>theme := (if theme s = dark then light else dark)\<rparr>"

section \<open>Step 1: model upload\<close>

text \<open>\<open>String.prototype.endsWith\<close>: false when the search string is longer.\<close>

definition endsWith :: "string \<Rightarrow> string \<Rightarrow> bool" where
  "endsWith s t = (length t \<le> length s \<and> drop (length s - length t) s = t)"

text \<open>
  \<open>reader.onload\<close> of \<open>handleModelUpload\<close>, for the file being read and the text the
  reader produced. It runs later than the handler, on the state of that moment; the three
  setters overwrite.
\<close>

definition reader_onload :: "File \<Rightarrow> string \<Rightarrow> 'n AppState \<Rightarrow> 'n AppState" where
  "reader_onload file text s =
     s\<lparr>modelData := Some \<lparr>name = file_name file, size_bytes = blob_size (file_blob file),
                            content = text\<rparr>,
       error := None,
       currentStep := INPUT_AUDIO\<rparr>"

text \<open>
  \<open>handleModelUpload\<close>: the argument is \<open>e.target.files?.[0]\<close>. The result is the new
  state and the file handed to \<open>reader.readAsText\<close>, if any.
\<close>

definition handleModelUpload :: "File option \<Rightarrow> 'n AppState \<Rightarrow> 'n AppState \<times> File option" where
  "handleModelUpload files s =
     (case files of
        None \<Rightarrow> (s, None)
      | Some file \<Rightarrow>
          if \<not> endsWith (file_name file) ''.ipynb''
          then (s\<lparr>error := Some ''Please upload a valid .ipynb file.''\<rparr>, None)
          else (s, Some file))"

text \<open>
  The upload with the read carried through: \<open>readAsText\<close> gives the text of a file, or
  \<open>None\<close> when the read fails (\<open>onload\<close> never fires then).
\<close>

definition handleModelUpload_read ::
  "(File \<Rightarrow> string option) \<Rightarrow> File option \<Rightarrow> 'n AppState \<Rightarrow> 'n AppState" where
  "handleModelUpload_read readAsText files s =
     (case handleModelUpload files s of
        (s1, None) \<Rightarrow> s1
      | (s1, Some file) \<Rightarrow>
          (case readAsText file of
             None \<Rightarrow> s1
           | Some text \<Rightarrow> reader_onload file text s1))"

section \<open>Step 2: audio upload\<close>

definition handleAudioUpload :: "File option \<Rightarrow> 'n AppState \<Rightarrow> 'n AppState" where
  "handleAudioUpload files s =
     (case files of
        None \<Rightarrow> s
      | Some file \<Rightarrow> s\<lparr>audioFile := Some (file_blob file), error := None\<rparr>)"

section \<open>Reset\<close>

definition reset :: "'n AppState \<Rightarrow> 'n AppState" where
  "reset s = s\<lparr>audioFile := None, result := JNull, currentStep := INPUT_AUDIO\<rparr>"

section \<open>The remote classification client (services/geminiService)\<close>

text \<open>
  What is thrown or rejected with. \<open>ProgressEvent\<close> is the \<open>FileReader\<close> error event
  that \<open>blobToBase64\<close> rejects with, \<open>ApiError\<close> whatever \<open>generateContent\<close> rejects
  with, \<open>SyntaxError\<close> what \<open>JSON.parse\<close> throws, \<open>Error m\<close> is \<open>new Error(m)\<close>.
\<close>

datatype thrown = ProgressEvent | ApiError | SyntaxError | Error string

text \<open>The settled \<open>generateContent\<close> promise; \<open>Resolved t\<close> carries \<open>response.text\<close>.\<close>

datatype generated = Rejected | Resolved "string option"

datatype Schema = STRING | NUMBER | ARRAY Schema | OBJECT "(string \<times> Schema) list"

record InlineData =
  mimeType :: string
  data :: "string option"

record GenerateContentParameters =
  model :: string
  inlineData :: InlineData
  parts_text :: string
  responseMimeType :: string
  responseSchema :: Schema

text \<open>
  The platform the client runs on: the file reader (\<open>None\<close>: the read fails), the hosted
  model, and \<open>JSON.parse\<close> (\<open>None\<close>: it throws).
\<close>

record 'n Platform =
  readAsDataURL :: "Blob \<Rightarrow> string option"
  generateContent :: "GenerateContentParameters \<Rightarrow> generated"
  JSON_parse :: "string \<Rightarrow> 'n json option"

text \<open>\<open>s.split(c)\<close> for a one-character separator, and \<open>xs[i]\<close> (\<open>None\<close> is \<open>undefined\<close>).\<close>

primrec split :: "char \<Rightarrow> string \<Rightarrow> string list" where
  "split c [] = [[]]"
| "split c (x # xs) =
     (if x = c then [] # split c xs
      else (case split c xs of [] \<Rightarrow> [[x]] | y # ys \<Rightarrow> (x # y) # ys))"

primrec index :: "'a list \<Rightarrow> nat \<Rightarrow> 'a option" where
  "index [] i = None"
| "index (x # xs) i = (case i of 0 \<Rightarrow> Some x | Suc j \<Rightarrow> index xs j)"

definition blobToBase64 :: "'n Platform \<Rightarrow> Blob \<Rightarrow> thrown + string option" where
  "blobToBase64 pf blob =
     (case readAsDataURL pf blob of
        None \<Rightarrow> Inl ProgressEvent
      | Some res \<Rightarrow> Inr (index (split CHR '','' res) 1))"

definition modelId :: string where
  "modelId = ''gemini-2.5-flash''"

text \<open>\<open>s.substring(0, n)\<close> for \<open>n \<ge> 0\<close>.\<close>

definition substring0 :: "nat \<Rightarrow> string \<Rightarrow> string" where
  "substring0 n s = take n s"

text \<open>The template literal, split at its one interpolation.\<close>

definition prompt_head :: string where
  "prompt_head =
     [CHR 0x0A] @ ''    You are an expert Urban Sound Classifier system. '' @
     [CHR 0x0A] @ ''    Analyze the provided audio clip. '' @
     [CHR 0x0A] @ ''    '' @
     [CHR 0x0A] @ ''    The user is interested in a classification model described by this notebook context (optional reference):'' @
     [CHR 0x0A] @ ''    ''"

definition prompt_tail :: string where
  "prompt_tail =
     ''... (truncated for brevity)'' @
     [CHR 0x0A] @
     [CHR 0x0A] @ ''    Classify the audio into one of these urban categories:'' @
     [CHR 0x0A] @ ''    - Siren'' @
     [CHR 0x0A] @ ''    - Dog Bark'' @
     [CHR 0x0A] @ ''    - Drilling'' @
     [CHR 0x0A] @ ''    - Car Horn'' @
     [CHR 0x0A] @ ''    - Street Music'' @
     [CHR 0x0A] @ ''    - Engine Idling'' @
     [CHR 0x0A] @ ''    - Gun Shot'' @
     [CHR 0x0A] @ ''    - Jackhammer'' @
     [CHR 0x0A] @ ''    - Children Playing'' @
     [CHR 0x0A] @ ''    - Air Conditioner'' @
     [CHR 0x0A] @ ''    - Traffic'' @
     [CHR 0x0A] @ ''    '' @
     [CHR 0x0A] @ ''    Return a JSON object with:'' @
     [CHR 0x0A] @ ''    1. '' @ [CHR 0x22] @ ''label'' @ [CHR 0x22] @ '': The most likely category.'' @
     [CHR 0x0A] @ ''    2. '' @ [CHR 0x22] @ ''accuracy'' @ [CHR 0x22] @ '': A confidence score between 0 and 100.'' @
     [CHR 0x0A] @ ''    3. '' @ [CHR 0x22] @ ''probabilities'' @ [CHR 0x22] @ '': An array of objects with '' @
       [CHR 0x22] @ ''name'' @ [CHR 0x22] @ '' (category) and '' @ [CHR 0x22] @ ''value'' @ [CHR 0x22] @
       '' (percentage 0-100) for the top 5 classes.'' @
     [CHR 0x0A] @ ''    4. '' @ [CHR 0x22] @ ''explanation'' @ [CHR 0x22] @
       '': A brief, technical explanation of the audio features (spectral centroid, rhythm, etc.) that led to this decision.'' @
     [CHR 0x0A] @ ''  ''"

definition prompt :: "string \<Rightarrow> string" where
  "prompt modelContext = prompt_head @ substring0 2000 modelContext @ prompt_tail"

definition schema :: Schema where
  "schema =
     OBJECT [(''label'', STRING), (''accuracy'', NUMBER), (''explanation'', STRING),
             (''probabilities'', ARRAY (OBJECT [(''name'', STRING), (''value'', NUMBER)]))]"

text \<open>
  The argument of \<open>ai.models.generateContent\<close>. \<open>audioBlob.type || 'audio/wav'\<close>: the
  empty string is the only falsy string.
\<close>

definition request :: "Blob \<Rightarrow> string \<Rightarrow> string option \<Rightarrow> GenerateContentParameters" where
  "request audioBlob modelContext base64Audio =
     \<lparr>model = modelId,
      inlineData = \<lparr>mimeType = (if blob_type audioBlob \<noteq> [] then blob_type audioBlob
                                 else ''audio/wav''),
                    data = base64Audio\<rparr>,
      parts_text = prompt modelContext,
      responseMimeType = ''application/json'',
      responseSchema = schema\<rparr>"

text \<open>
  The body of the \<open>try\<close> block. \<open>!text\<close> holds for \<open>undefined\<close> and for the empty
  string.
\<close>

definition classify_try :: "'n Platform \<Rightarrow> GenerateContentParameters \<Rightarrow> thrown + 'n json" where
  "classify_try pf req =
     (case generateContent pf req of
        Rejected \<Rightarrow> Inl ApiError
      | Resolved None \<Rightarrow> Inl (Error ''No response from Gemini'')
      | Resolved (Some t) \<Rightarrow>
          if t = [] then Inl (Error ''No response from Gemini'')
          else (case JSON_parse pf t of
                  None \<Rightarrow> Inl SyntaxError
                | Some v \<Rightarrow> Inr v))"

text \<open>
  \<open>classifyAudioWithGemini\<close>: the requests sent to the hosted model, in order, and the
  outcome of the promise. \<open>blobToBase64\<close> is awaited outside the \<open>try\<close>, so its rejection
  passes through as it is; the \<open>catch\<close> replaces whatever the \<open>try\<close> block threw.
\<close>

definition classifyAudioWithGemini ::
  "'n Platform \<Rightarrow> Blob \<Rightarrow> string \<Rightarrow> GenerateContentParameters list \<times> (thrown + 'n json)" where
  "classifyAudioWithGemini pf audioBlob modelContext =
     (case blobToBase64 pf audioBlob of
        Inl e \<Rightarrow> ([], Inl e)
      | Inr base64Audio \<Rightarrow>
          (let req = request audioBlob modelContext base64Audio
           in ([req],
               (case classify_try pf req of
                  Inl e \<Rightarrow> Inl (Error ''Failed to classify audio. Please try again.'')
                | Inr v \<Rightarrow> Inr v))))"

section \<open>Step 3: analysis\<close>

text \<open>
  The part of \<open>runClassification\<close> after the \<open>await\<close>, on the state of that moment: the
  \<open>try\<close> continues when the promise resolved, the \<open>catch\<close> runs when it rejected.
\<close>

definition runClassification_settled :: "thrown + 'n json \<Rightarrow> 'n AppState \<Rightarrow> 'n AppState" where
  "runClassification_settled outcome s =
     (case outcome of
        Inr res \<Rightarrow> s\<lparr>result := res, currentStep := RESULTS\<rparr>
      | Inl err \<Rightarrow>
          s\<lparr>error := Some ''Classification failed. Please check your API key or internet connection.'',
            currentStep := INPUT_AUDIO\<rparr>)"

text \<open>
  \<open>runClassification\<close> with nothing else happening while the call is pending: the
  requests sent, and the state after.
\<close>

definition runClassification ::
  "'n Platform \<Rightarrow> 'n AppState \<Rightarrow> GenerateContentParameters list \<times> 'n AppState" where
  "runClassification pf s =
     (case audioFile s of
        None \<Rightarrow> ([], s)
      | Some audio \<Rightarrow>
          (case modelData s of
             None \<Rightarrow> ([], s)
           | Some md \<Rightarrow>
               (let s1 = s\<lparr>currentStep := ANALYZING\<rparr>;
                    (sent, outcome) = classifyAudioWithGemini pf audio (content md)
                in (sent, runClassification_settled outcome s1))))"

section \<open>The browser's media objects\<close>

datatype MediaStreamTrackState = live | ended

datatype AudioContextState = suspended | running | closed

text \<open>Audio contexts, audio elements, object URLs and frame requests are identities.\<close>

datatype AudioSource = MediaStreamSource MediaStream | MediaElementSource nat

record HTMLAudioElement =
  src :: "nat option"
  paused :: bool
  handlers :: bool

text \<open>
  The browser state the two components act on: the \<open>readyState\<close> of every track of every
  stream, the state of every audio context and the source connected to its analyser, the
  audio elements, the object URLs not yet revoked, the animation-frame requests not yet run
  or cancelled, and the last identity handed out.
\<close>

record Browser =
  tracks :: "MediaStream \<Rightarrow> MediaStreamTrackState list"
  contexts :: "nat \<Rightarrow> AudioContextState"
  sources :: "nat \<Rightarrow> AudioSource option"
  elements :: "nat \<Rightarrow> HTMLAudioElement"
  objectURLs :: "nat set"
  frames :: "nat set"
  fresh :: nat

text \<open>\<open>stream.getTracks().forEach(track => track.stop())\<close>\<close>

definition stop_tracks :: "MediaStream \<Rightarrow> Browser \<Rightarrow> Browser" where
  "stop_tracks stream w = w\<lparr>tracks := (tracks w)(stream := map (\<lambda>track. ended) (tracks w stream))\<rparr>"

text \<open>
  \<open>audioContext.close()\<close>, and \<open>audioEl.pause()\<close> with \<open>audioEl.src = ""\<close>. Closing
  a context releases the context only: a stream that fed it keeps its tracks as they are,
  a track ends by \<open>track.stop()\<close>.
\<close>

definition close_context :: "nat \<Rightarrow> Browser \<Rightarrow> Browser" where
  "close_context c w = w\<lparr>contexts := (contexts w)(c := closed)\<rparr>"

definition pause_and_clear :: "nat \<Rightarrow> Browser \<Rightarrow> Browser" where
  "pause_and_clear a w = w\<lparr>elements := (elements w)(a := (elements w a)\<lparr>paused := True, src := None\<rparr>)\<rparr>"

section \<open>Step 2: recording\<close>

text \<open>\<open>new Blob(parts, {type})\<close>: the bytes of the parts in order (the type given here is
  lower-case ASCII already, so the constructor keeps it).\<close>

definition new_Blob :: "Blob list \<Rightarrow> string \<Rightarrow> Blob" where
  "new_Blob parts ty = \<lparr>blob_type = ty, bytes = concat (map bytes parts)\<rparr>"

text \<open>
  \<open>startRecording\<close> from the point where \<open>getUserMedia\<close> has settled: \<open>None\<close> is its
  rejection. \<open>constructed\<close> and \<open>started\<close> say whether \<open>new MediaRecorder(stream)\<close> and
  \<open>mediaRecorder.start()\<close> returned without throwing; the \<open>catch\<close> covers the whole body.
\<close>

definition startRecording ::
  "MediaStream option \<Rightarrow> bool \<Rightarrow> bool \<Rightarrow> 'n AppState \<Rightarrow> 'n AppState" where
  "startRecording getUserMedia constructed started s =
     (case getUserMedia of
        None \<Rightarrow> s\<lparr>error := Some ''Microphone access denied.''\<rparr>
      | Some stream \<Rightarrow>
          (let s1 = s\<lparr>recordingStream := Some stream, isRecording := True, audioFile := None\<rparr>
           in if \<not> constructed then s1\<lparr>error := Some ''Microphone access denied.''\<rparr>
              else (let s2 = s1\<lparr>mediaRecorderRef := Some \<lparr>rec_stream = stream, rec_state = inactive\<rparr>,
                               chunksRef := []\<rparr>
                    in if \<not> started then s2\<lparr>error := Some ''Microphone access denied.''\<rparr>
                       else s2\<lparr>mediaRecorderRef := Some \<lparr>rec_stream = stream, rec_state = recording\<rparr>\<rparr>)))"

definition recorder_ondataavailable :: "Blob \<Rightarrow> 'n AppState \<Rightarrow> 'n AppState" where
  "recorder_ondataavailable e_data s =
     (if blob_size e_data > 0 then s\<lparr>chunksRef := chunksRef s @ [e_data]\<rparr> else s)"

text \<open>\<open>mediaRecorder.onstop\<close>, of the recorder made for \<open>stream\<close>.\<close>

definition recorder_onstop :: "MediaStream \<Rightarrow> 'n AppState \<times> Browser \<Rightarrow> 'n AppState \<times> Browser" where
  "recorder_onstop stream sw =
     (case sw of (s, w) \<Rightarrow>
        (s\<lparr>audioFile := Some (new_Blob (chunksRef s) ''audio/webm''), recordingStream := None\<rparr>,
         stop_tracks stream w))"

text \<open>
  \<open>stopRecording\<close>: the new state and the recorder that \<open>stop()\<close> has stopped, if any.
  On a recorder that is not recording \<open>stop()\<close> returns at once and no event follows.
\<close>

definition stopRecording :: "'n AppState \<Rightarrow> 'n AppState \<times> MediaRecorder option" where
  "stopRecording s =
     (case mediaRecorderRef s of
        None \<Rightarrow> (s, None)
      | Some recorder \<Rightarrow>
          if isRecording s
          then (s\<lparr>mediaRecorderRef := Some (recorder\<lparr>rec_state := inactive\<rparr>), isRecording := False\<rparr>,
                if rec_state recorder = recording then Some recorder else None)
          else (s, None))"

text \<open>
  A stop carried through: \<open>stop()\<close> makes a recorder that is recording deliver the
  data gathered so far (\<open>dataavailable\<close>) and then fire \<open>stop\<close>.
\<close>

definition stopRecording_events :: "Blob \<Rightarrow> 'n AppState \<times> Browser \<Rightarrow> 'n AppState \<times> Browser" where
  "stopRecording_events last_data sw =
     (case sw of (s, w) \<Rightarrow>
        (case stopRecording s of
           (s1, None) \<Rightarrow> (s1, w)
         | (s1, Some recorder) \<Rightarrow>
             recorder_onstop (rec_stream recorder) (recorder_ondataavailable last_data s1, w)))"

text \<open>The \<open>Change\<close> button of the audio view.\<close>

definition changeModel :: "'n AppState \<Rightarrow> 'n AppState" where
  "changeModel s = s\<lparr>modelData := None, currentStep := UPLOAD_MODEL, audioFile := None\<rparr>"

section \<open>The visualizer (components/Visualizer)\<close>

record VisualizerProps =
  prop_stream :: "MediaStream option"
  prop_audioFile :: "Blob option"
  prop_isRecording :: bool

text \<open>The refs and the state of the component; \<open>canvasRef\<close> says whether the canvas is there.\<close>

record Visualizer =
  canvasRef :: bool
  audioContextRef :: "nat option"
  analyserRef :: "nat option"
  requestRef :: "nat option"
  audioElementRef :: "nat option"
  isPlaying :: bool

text \<open>The variables one run of the effect closes over.\<close>

record Effect =
  audioUrl :: "nat option"
  audioEl :: "nat option"
  mounted :: bool

definition new_effect :: Effect where
  "new_effect = \<lparr>audioUrl = None, audioEl = None, mounted = True\<rparr>"

text \<open>
  \<open>draw\<close>, up to the first call of \<open>animate\<close>: \<open>requestRef.current =
  requestAnimationFrame(animate)\<close>. The canvas gives a 2d context. Identities handed out
  are never 0.
\<close>

definition draw :: "Visualizer \<times> Browser \<Rightarrow> Visualizer \<times> Browser" where
  "draw vw =
     (case vw of (v, w) \<Rightarrow>
        if \<not> canvasRef v \<or> analyserRef v = None then (v, w)
        else (let r = Suc (fresh w)
              in (v\<lparr>requestRef := Some r\<rparr>, w\<lparr>frames := insert r (frames w), fresh := r\<rparr>)))"

text \<open>\<open>initVisualizer\<close> up to its \<open>await\<close>: whether it goes on, and the browser after.\<close>

definition initVisualizer_begin :: "Visualizer \<Rightarrow> Browser \<Rightarrow> bool \<times> Browser" where
  "initVisualizer_begin v w =
     (if \<not> canvasRef v then (False, w)
      else (True,
            (case audioContextRef v of
               None \<Rightarrow> w
             | Some c \<Rightarrow> if contexts w c \<noteq> closed then close_context c w else w)))"

text \<open>
  \<open>initVisualizer\<close> from \<open>if (!mounted) return\<close> on. \<open>createMediaStreamSource\<close> throws
  for a stream without tracks; the \<open>catch\<close> around it only logs.
\<close>

definition initVisualizer_resume ::
  "VisualizerProps \<Rightarrow> Effect \<times> Visualizer \<times> Browser \<Rightarrow> Effect \<times> Visualizer \<times> Browser" where
  "initVisualizer_resume p evw =
     (case evw of (e, v, w) \<Rightarrow>
        if \<not> mounted e then (e, v, w)
        else
          (let audioCtx = Suc (fresh w);
               w1 = w\<lparr>contexts := (contexts w)(audioCtx := running), fresh := audioCtx\<rparr>;
               v1 = v\<lparr>audioContextRef := Some audioCtx, analyserRef := Some audioCtx\<rparr>;
               microphone = (\<lambda>stream.
                 (let (v2, w2) =
                        (if tracks w1 stream \<noteq> []
                         then (v1\<lparr>isPlaying := True\<rparr>,
                               w1\<lparr>sources := (sources w1)(audioCtx := Some (MediaStreamSource stream))\<rparr>)
                         else (v1, w1));
                      (v3, w3) = draw (v2, w2)
                  in (e, v3, w3)));
               file = (\<lambda>blob.
                 (let w2 = (case audioElementRef v1 of None \<Rightarrow> w1 | Some a \<Rightarrow> pause_and_clear a w1);
                      url = Suc (fresh w2);
                      el = Suc url;
                      w3 = w2\<lparr>objectURLs := insert url (objectURLs w2),
                              elements := (elements w2)(el := \<lparr>src = Some url, paused = True, handlers = True\<rparr>),
                              sources := (sources w2)(audioCtx := Some (MediaElementSource el)),
                              fresh := el\<rparr>;
                      v2 = v1\<lparr>audioElementRef := Some el\<rparr>;
                      (v3, w4) = draw (v2, w3)
                  in (e\<lparr>audioUrl := Some url, audioEl := Some el\<rparr>, v3, w4)));
               neither =
                 (e, v1\<lparr>isPlaying := False\<rparr>,
                  (if contexts w1 audioCtx \<noteq> closed then close_context audioCtx w1 else w1));
               otherwise =
                 (case prop_audioFile p of
                    None \<Rightarrow> neither
                  | Some blob \<Rightarrow> if \<not> prop_isRecording p then file blob else neither)
           in (case prop_stream p of
                 None \<Rightarrow> otherwise
               | Some stream \<Rightarrow> if prop_isRecording p then microphone stream else otherwise)))"

text \<open>
  One later run of \<open>animate\<close>, as the callback of frame request \<open>r\<close>: it asks for the
  next frame before it paints.
\<close>

definition animate :: "nat \<Rightarrow> Visualizer \<times> Browser \<Rightarrow> Visualizer \<times> Browser" where
  "animate r vw =
     (case vw of (v, w) \<Rightarrow>
        if r \<notin> frames w then (v, w)
        else (let r' = Suc (fresh w)
              in (v\<lparr>requestRef := Some r'\<rparr>,
                  w\<lparr>frames := insert r' (frames w - {r}), fresh := r'\<rparr>)))"

text \<open>The effect body, with no teardown while \<open>initVisualizer\<close> waits.\<close>

definition effect :: "VisualizerProps \<Rightarrow> Visualizer \<times> Browser \<Rightarrow> Effect \<times> Visualizer \<times> Browser" where
  "effect p vw =
     (case vw of (v, w) \<Rightarrow>
        (case initVisualizer_begin v w of
           (False, w1) \<Rightarrow> (new_effect, v, w1)
         | (True, w1) \<Rightarrow> initVisualizer_resume p (new_effect, v, w1)))"

text \<open>
  The cleanup function the effect returns: it runs when a dependency changes and when the
  component unmounts. \<open>if (requestRef.current)\<close> is false for \<open>undefined\<close> and for 0.
\<close>

definition cleanup :: "Effect \<times> Visualizer \<times> Browser \<Rightarrow> Effect \<times> Visualizer \<times> Browser" where
  "cleanup evw =
     (case evw of (e, v, w) \<Rightarrow>
        (let w1 = (case requestRef v of
                     None \<Rightarrow> w
                   | Some r \<Rightarrow> if r \<noteq> 0 then w\<lparr>frames := frames w - {r}\<rparr> else w);
             w2 = (case audioContextRef v of
                     None \<Rightarrow> w1
                   | Some c \<Rightarrow> if contexts w1 c \<noteq> closed then close_context c w1 else w1);
             w3 = (case audioEl e of
                     None \<Rightarrow> w2
                   | Some a \<Rightarrow>
                       (let w' = pause_and_clear a w2
                        in w'\<lparr>elements := (elements w')(a := (elements w' a)\<lparr>handlers := False\<rparr>)\<rparr>));
             w4 = (case audioUrl e of
                     None \<Rightarrow> w3
                   | Some u \<Rightarrow> w3\<lparr>objectURLs := objectURLs w3 - {u}\<rparr>)
         in (e\<lparr>mounted := False\<rparr>, v, w4)))"

section \<open>Concrete inputs\<close>

definition notes_txt :: File where
  "notes_txt = \<lparr>file_name = ''notes.txt'', file_blob = \<lparr>blob_type = ''text/plain'', bytes = [104, 105]\<rparr>\<rparr>"

definition model_ipynb :: File where
  "model_ipynb = \<lparr>file_name = ''model.ipynb'', file_blob = \<lparr>blob_type = [], bytes = [123, 125, 10]\<rparr>\<rparr>"

definition quoted :: "string \<Rightarrow> string" where
  "quoted s = [CHR 0x22] @ s @ [CHR 0x22]"

definition clip :: Blob where
  "clip = \<lparr>blob_type = ''audio/webm'', bytes = [26, 69, 223, 163]\<rparr>"

definition untyped_clip :: Blob where
  "untyped_clip = \<lparr>blob_type = [], bytes = [82, 73, 70, 70]\<rparr>"

definition siren_text :: string where
  "siren_text =
     ''{'' @ quoted ''label'' @ '':'' @ quoted ''Siren'' @ '','' @
     quoted ''accuracy'' @ '':92,'' @
     quoted ''explanation'' @ '':'' @ quoted ''Slow sweep.'' @ '','' @
     quoted ''probabilities'' @ '':[{'' @ quoted ''name'' @ '':'' @ quoted ''Siren'' @ '','' @
     quoted ''value'' @ '':92}]}''"

definition siren_result :: "int json" where
  "siren_result =
     JObj [(''label'', JStr ''Siren''), (''accuracy'', JNum 92),
           (''explanation'', JStr ''Slow sweep.''),
           (''probabilities'', JArr [JObj [(''name'', JStr ''Siren''), (''value'', JNum 92)]])]"

definition label_only_text :: string where
  "label_only_text = ''{'' @ quoted ''label'' @ '':'' @ quoted ''Siren'' @ ''}''"

definition label_only :: "int json" where
  "label_only = JObj [(''label'', JStr ''Siren'')]"

text \<open>\<open>JSON.parse\<close> on the three texts used below.\<close>

definition parse_known :: "string \<Rightarrow> int json option" where
  "parse_known t =
     (if t = siren_text then Some siren_result
      else if t = label_only_text then Some label_only
      else None)"

definition platform_replying :: "generated \<Rightarrow> int Platform" where
  "platform_replying reply =
     \<lparr>readAsDataURL = (\<lambda>blob. Some ''data:audio/webm;base64,GkXfow==''),
      generateContent = (\<lambda>req. reply),
      JSON_parse = parse_known\<rparr>"

definition ready :: "int AppState" where
  "ready = initial_state
     \<lparr>currentStep := INPUT_AUDIO,
      modelData := Some \<lparr>name = ''model.ipynb'', size_bytes = 3, content = ''{}''\<rparr>,
      audioFile := Some clip\<rparr>"

definition microphone :: MediaStream where
  "microphone = 7"

definition browser_recording :: Browser where
  "browser_recording =
     \<lparr>tracks = (\<lambda>stream. [])(microphone := [live]),
      contexts = (\<lambda>c. closed),
      sources = (\<lambda>c. None),
      elements = (\<lambda>a. \<lparr>src = None, paused = True, handlers = False\<rparr>),
      objectURLs = {},
      frames = {},
      fresh = 0\<rparr>"

definition idle_visualizer :: Visualizer where
  "idle_visualizer =
     \<lparr>canvasRef = True, audioContextRef = None, analyserRef = None, requestRef = None,
      audioElementRef = None, isPlaying = False\<rparr>"

definition recording_props :: VisualizerProps where
  "recording_props = \<lparr>prop_stream = Some microphone, prop_audioFile = None, prop_isRecording = True\<rparr>"

definition while_recording :: "int AppState" where
  "while_recording = startRecording (Some microphone) True True ready"

definition long_context :: "string \<Rightarrow> string" where
  "long_context rest = replicate 2000 CHR ''#'' @ rest"

section \<open>Theorems\<close>

lemma endsWith_append: "endsWith (xs @ t) t"
  by (simp add: endsWith_def)

lemma blobToBase64_replying:
  "blobToBase64 (platform_replying reply) blob = Inr (Some ''GkXfow=='')"
  by (simp add: blobToBase64_def platform_replying_def)

lemma classify_snd:
  "blobToBase64 pf audioBlob = Inr d \<Longrightarrow>
   snd (classifyAudioWithGemini pf audioBlob modelContext) =
     (case classify_try pf (request audioBlob modelContext d) of
        Inl e \<Rightarrow> Inl (Error ''Failed to classify audio. Please try again.'')
      | Inr v \<Rightarrow> Inr v)"
  by (simp add: classifyAudioWithGemini_def Let_def)

lemma classify_siren:
  "snd (classifyAudioWithGemini (platform_replying (Resolved (Some siren_text))) blob ctx) = Inr siren_result"
  by (simp add: classify_snd [OF blobToBase64_replying] classify_try_def)
     (simp add: platform_replying_def parse_known_def siren_text_def)

lemma classify_offline:
  "snd (classifyAudioWithGemini (platform_replying Rejected) blob ctx)
     = Inl (Error ''Failed to classify audio. Please try again.'')"
  by (simp add: classify_snd [OF blobToBase64_replying] classify_try_def)
     (simp add: platform_replying_def)

lemma classify_fst:
  "blobToBase64 pf audioBlob = Inr d \<Longrightarrow>
   fst (classifyAudioWithGemini pf audioBlob modelContext) = [request audioBlob modelContext d]"
  by (simp add: classifyAudioWithGemini_def Let_def)

lemma classify_reader_error:
  "readAsDataURL pf audioBlob = None \<Longrightarrow>
   classifyAudioWithGemini pf audioBlob modelContext = ([], Inl ProgressEvent)"
  by (simp add: classifyAudioWithGemini_def blobToBase64_def)

lemma classify_label_only:
  "snd (classifyAudioWithGemini (platform_replying (Resolved (Some label_only_text))) blob ctx) = Inr label_only"
  by (simp add: classify_snd [OF blobToBase64_replying] classify_try_def)
     (simp add: platform_replying_def parse_known_def siren_text_def label_only_text_def quoted_def)

lemma cleanup_tracks: "tracks (snd (snd (cleanup (e, v, w)))) = tracks w"
  by (simp add: cleanup_def close_context_def pause_and_clear_def Let_def split: option.splits)

text \<open>
  Claim C4. An upload whose file name does not end in \<open>.ipynb\<close> sets the invalid-file-type
  error and changes nothing else: the step, the model metadata and every other cell of the
  state are those of before, no read is started, and so no later \<open>onload\<close> advances the
  wizard.
\<close>

theorem C4_invalid_upload:
  assumes "\<not> endsWith (file_name f) ''.ipynb''"
  shows "handleModelUpload (Some f) s
           = (s\<lparr>error := Some ''Please upload a valid .ipynb file.''\<rparr>, None)
       \<and> handleModelUpload_read readAsText (Some f) s
           = s\<lparr>error := Some ''Please upload a valid .ipynb file.''\<rparr>
       \<and> currentStep (handleModelUpload_read readAsText (Some f) s) = currentStep s
       \<and> modelData (handleModelUpload_read readAsText (Some f) s) = modelData s"
  using assms by (simp add: handleModelUpload_def handleModelUpload_read_def)

theorem C4_invalid_upload_witness:
  "\<not> endsWith (file_name notes_txt) ''.ipynb''
   \<and> handleModelUpload_read (\<lambda>f. Some ''hi'') (Some notes_txt) (initial_state :: int AppState)
       = initial_state\<lparr>error := Some ''Please upload a valid .ipynb file.''\<rparr>"
  using C4_invalid_upload [where f = notes_txt and readAsText = "\<lambda>f. Some ''hi''"
      and s = "initial_state :: int AppState"]
  by (simp add: endsWith_def notes_txt_def)

text \<open>
  Claim C5. For an upload whose file name ends in \<open>.ipynb\<close> the handler starts a read
  and changes nothing yet; when the read has produced the text, \<open>onload\<close> sets the model
  metadata to exactly the file's name, its size in bytes and that text, clears the error
  and moves the wizard to the audio step.
\<close>

theorem C5_valid_upload:
  assumes "endsWith (file_name f) ''.ipynb''"
  shows "handleModelUpload (Some f) s = (s, Some f)
       \<and> reader_onload f t s'
           = s'\<lparr>modelData := Some \<lparr>name = file_name f,
                                    size_bytes = length (bytes (file_blob f)),
                                    content = t\<rparr>,
                error := None, currentStep := INPUT_AUDIO\<rparr>
       \<and> (readAsText f = Some t \<longrightarrow>
            modelData (handleModelUpload_read readAsText (Some f) s)
              = Some \<lparr>name = file_name f, size_bytes = length (bytes (file_blob f)),
                      content = t\<rparr>
          \<and> error (handleModelUpload_read readAsText (Some f) s) = None
          \<and> currentStep (handleModelUpload_read readAsText (Some f) s) = INPUT_AUDIO
          \<and> handleModelUpload_read readAsText (Some f) s = reader_onload f t s)"
  using assms
  by (simp add: handleModelUpload_def handleModelUpload_read_def reader_onload_def blob_size_def)

theorem C5_valid_upload_witness:
  "endsWith (file_name model_ipynb) ''.ipynb''
   \<and> modelData (handleModelUpload_read (\<lambda>f. Some ''{}'') (Some model_ipynb) (initial_state :: int AppState))
       = Some \<lparr>name = ''model.ipynb'', size_bytes = 3, content = ''{}''\<rparr>
   \<and> error (handleModelUpload_read (\<lambda>f. Some ''{}'') (Some model_ipynb) (initial_state :: int AppState)) = None
   \<and> currentStep (handleModelUpload_read (\<lambda>f. Some ''{}'') (Some model_ipynb) (initial_state :: int AppState))
       = INPUT_AUDIO"
  using C5_valid_upload [where f = model_ipynb and readAsText = "\<lambda>f. Some ''{}''"
      and t = "''{}''" and s = "initial_state :: int AppState"
      and s' = "initial_state :: int AppState"]
  by (simp add: endsWith_def model_ipynb_def)

text \<open>
  Claim C7. \<open>reset\<close> (from the results step as from any other) clears the audio input
  and the result, returns to the audio step and leaves the model metadata, like every other
  cell, as it was.
\<close>

theorem C7_reset:
  "audioFile (reset s) = None
   \<and> result (reset s) = JNull
   \<and> currentStep (reset s) = INPUT_AUDIO
   \<and> modelData (reset s) = modelData s
   \<and> reset s = s\<lparr>audioFile := None, result := JNull, currentStep := INPUT_AUDIO\<rparr>"
  by (simp add: reset_def)

text \<open>
  Claim C9. When the audio input or the model metadata is \<open>null\<close>, \<open>runClassification\<close>
  returns at once: no request is sent, and the whole state is unchanged.
\<close>

theorem C9_guard:
  assumes "audioFile s = None \<or> modelData s = None"
  shows "runClassification pf s = ([], s)"
  using assms by (auto simp: runClassification_def split: option.splits)

theorem C9_guard_witness:
  "(audioFile (initial_state :: int AppState) = None \<or> modelData (initial_state :: int AppState) = None)
   \<and> runClassification (platform_replying (Resolved (Some siren_text))) initial_state
       = ([], initial_state)"
  using C9_guard [where s = "initial_state :: int AppState"
      and pf = "platform_replying (Resolved (Some siren_text))"]
  by (simp add: initial_state_def)

text \<open>
  Claim C1. With an audio blob and model metadata present: when the remote call returns a
  result, the state is the one before with the result stored as parsed and the step set
  to results; when the call throws, the state is the one before with the generic failure
  message as error and the step back at audio input, the audio input being the one selected
  before. Both hold as well for the continuation alone, on whatever state the call settles
  in.
\<close>

theorem C1_runClassification:
  assumes "audioFile s = Some audio" and "modelData s = Some md"
  shows "(snd (classifyAudioWithGemini pf audio (content md)) = Inr res \<longrightarrow>
            snd (runClassification pf s) = s\<lparr>result := res, currentStep := RESULTS\<rparr>)
       \<and> (snd (classifyAudioWithGemini pf audio (content md)) = Inl err \<longrightarrow>
            snd (runClassification pf s)
              = s\<lparr>error := Some ''Classification failed. Please check your API key or internet connection.'',
                  currentStep := INPUT_AUDIO\<rparr>
          \<and> audioFile (snd (runClassification pf s)) = Some audio)
       \<and> runClassification_settled (Inr res) s' = s'\<lparr>result := res, currentStep := RESULTS\<rparr>
       \<and> runClassification_settled (Inl err) s'
            = s'\<lparr>error := Some ''Classification failed. Please check your API key or internet connection.'',
                 currentStep := INPUT_AUDIO\<rparr>
       \<and> audioFile (runClassification_settled (Inl err) s') = audioFile s'"
  using assms
  by (simp add: runClassification_def runClassification_settled_def split_beta Let_def)

theorem C1_runClassification_witness:
  "audioFile ready = Some clip
   \<and> modelData ready = Some \<lparr>name = ''model.ipynb'', size_bytes = 3, content = ''{}''\<rparr>
   \<and> snd (classifyAudioWithGemini (platform_replying (Resolved (Some siren_text))) clip ''{}'') = Inr siren_result
   \<and> snd (runClassification (platform_replying (Resolved (Some siren_text))) ready)
       = ready\<lparr>result := siren_result, currentStep := RESULTS\<rparr>
   \<and> snd (classifyAudioWithGemini (platform_replying Rejected) clip ''{}'')
       = Inl (Error ''Failed to classify audio. Please try again.'')
   \<and> snd (runClassification (platform_replying Rejected) ready)
       = ready\<lparr>error := Some ''Classification failed. Please check your API key or internet connection.'',
               currentStep := INPUT_AUDIO\<rparr>
   \<and> audioFile (snd (runClassification (platform_replying Rejected) ready)) = Some clip"
proof -
  have a: "audioFile ready = Some clip"
    and m: "modelData ready = Some \<lparr>name = ''model.ipynb'', size_bytes = 3, content = ''{}''\<rparr>"
    by (simp_all add: ready_def)
  note ok = C1_runClassification [OF a m, where pf = "platform_replying (Resolved (Some siren_text))"
      and res = siren_result and s' = ready and err = ApiError]
  note ko = C1_runClassification [OF a m, where pf = "platform_replying Rejected"
      and err = "Error ''Failed to classify audio. Please try again.''" and s' = ready
      and res = siren_result]
  show ?thesis
    using a m ok ko classify_siren [of clip "''{}''"] classify_offline [of clip "''{}''"]
    by simp
qed

text \<open>
  Claim C3, as stated, fails on a response that lacks required fields: the text
  \<open>{"label":"Siren"}\<close> is well-formed JSON, \<open>JSON.parse\<close> accepts it, and the client
  returns the parsed object, which has no accuracy, probabilities or explanation, as
  its result. No error is thrown.
\<close>

theorem C3_partial_result_counterexample:
  "generateContent (platform_replying (Resolved (Some label_only_text)))
       (request clip ''{}'' (Some ''GkXfow=='')) = Resolved (Some label_only_text)
   \<and> JSON_parse (platform_replying (Resolved (Some label_only_text))) label_only_text = Some label_only
   \<and> \<not> is_ClassificationResult label_only
   \<and> snd (classifyAudioWithGemini (platform_replying (Resolved (Some label_only_text))) clip ''{}'')
       = Inr label_only
   \<and> snd (classifyAudioWithGemini (platform_replying (Resolved (Some label_only_text))) clip ''{}'')
       \<noteq> Inl (Error ''Failed to classify audio. Please try again.'')"
proof -
  have "\<not> is_ClassificationResult label_only"
    by (simp add: is_ClassificationResult_def label_only_def is_number_def)
  moreover have "JSON_parse (platform_replying (Resolved (Some label_only_text))) label_only_text
      = Some label_only"
    by (simp add: platform_replying_def parse_known_def siren_text_def label_only_text_def quoted_def)
  moreover have "generateContent (platform_replying (Resolved (Some label_only_text)))
       (request clip ''{}'' (Some ''GkXfow=='')) = Resolved (Some label_only_text)"
    by (simp add: platform_replying_def)
  ultimately show ?thesis
    by (simp add: classify_label_only)
qed

text \<open>
  Claim C3, amended. Once the audio is encoded, a rejected request, a response without text,
  a response with empty text and a response text that \<open>JSON.parse\<close> rejects all end in
  the same error, \<open>Failed to classify audio. Please try again.\<close>, whatever the cause; a
  non-empty response text that parses is returned as parsed, its fields unchecked.
\<close>

theorem C3_failures:
  assumes "blobToBase64 pf audioBlob = Inr d"
  shows "(generateContent pf (request audioBlob modelContext d) = Rejected \<longrightarrow>
            snd (classifyAudioWithGemini pf audioBlob modelContext)
              = Inl (Error ''Failed to classify audio. Please try again.''))
       \<and> (generateContent pf (request audioBlob modelContext d) = Resolved None \<longrightarrow>
            snd (classifyAudioWithGemini pf audioBlob modelContext)
              = Inl (Error ''Failed to classify audio. Please try again.''))
       \<and> (generateContent pf (request audioBlob modelContext d) = Resolved (Some []) \<longrightarrow>
            snd (classifyAudioWithGemini pf audioBlob modelContext)
              = Inl (Error ''Failed to classify audio. Please try again.''))
       \<and> (generateContent pf (request audioBlob modelContext d) = Resolved (Some t)
            \<and> JSON_parse pf t = None \<longrightarrow>
            snd (classifyAudioWithGemini pf audioBlob modelContext)
              = Inl (Error ''Failed to classify audio. Please try again.''))
       \<and> (generateContent pf (request audioBlob modelContext d) = Resolved (Some t)
            \<and> t \<noteq> [] \<and> JSON_parse pf t = Some v \<longrightarrow>
            snd (classifyAudioWithGemini pf audioBlob modelContext) = Inr v)"
  by (simp add: classify_snd [OF assms] classify_try_def)

theorem C3_failures_witness:
  "blobToBase64 (platform_replying Rejected) clip = Inr (Some ''GkXfow=='')
   \<and> snd (classifyAudioWithGemini (platform_replying Rejected) clip ''{}'')
       = Inl (Error ''Failed to classify audio. Please try again.'')
   \<and> snd (classifyAudioWithGemini (platform_replying (Resolved None)) clip ''{}'')
       = Inl (Error ''Failed to classify audio. Please try again.'')
   \<and> snd (classifyAudioWithGemini (platform_replying (Resolved (Some ''''))) clip ''{}'')
       = Inl (Error ''Failed to classify audio. Please try again.'')
   \<and> JSON_parse (platform_replying (Resolved (Some ''<html>''))) ''<html>'' = None
   \<and> snd (classifyAudioWithGemini (platform_replying (Resolved (Some ''<html>''))) clip ''{}'')
       = Inl (Error ''Failed to classify audio. Please try again.'')
   \<and> label_only_text \<noteq> []
   \<and> JSON_parse (platform_replying (Resolved (Some label_only_text))) label_only_text = Some label_only
   \<and> snd (classifyAudioWithGemini (platform_replying (Resolved (Some label_only_text))) clip ''{}'')
       = Inr label_only"
proof -
  have b: "blobToBase64 (platform_replying reply) clip = Inr (Some ''GkXfow=='')" for reply
    by (simp add: blobToBase64_def platform_replying_def)
  have g: "generateContent (platform_replying reply) req = reply" for reply req
    by (simp add: platform_replying_def)
  have p: "JSON_parse (platform_replying reply) = parse_known" for reply
    by (simp add: platform_replying_def)
  have k1: "parse_known ''<html>'' = None"
    by (simp add: parse_known_def siren_text_def label_only_text_def quoted_def)
  have k2: "parse_known label_only_text = Some label_only"
    by (simp add: parse_known_def siren_text_def label_only_text_def quoted_def)
  have k3: "label_only_text \<noteq> []"
    by (simp add: label_only_text_def)
  note c1 = C3_failures [OF b, where reply1 = Rejected and modelContext = "''{}''"]
  note c2 = C3_failures [OF b, where reply1 = "Resolved None" and modelContext = "''{}''"]
  note c3 = C3_failures [OF b, where reply1 = "Resolved (Some [])" and modelContext = "''{}''"]
  note c4 = C3_failures [OF b, where reply1 = "Resolved (Some ''<html>'')" and modelContext = "''{}''"
      and t = "''<html>''"]
  note c5 = C3_failures [OF b, where reply1 = "Resolved (Some label_only_text)" and modelContext = "''{}''"
      and t = label_only_text and v = label_only]
  show ?thesis
    using c1 c2 c3 c4 c5 k1 k2 k3 by (simp add: b g p)
qed

text \<open>
  Claim C8. The prompt is a fixed head, the first 2000 characters of the context and a
  fixed tail; it is the text part of the request sent. Two contexts with the same first
  2000 characters give the same prompt.
\<close>

theorem C8_prompt_truncation:
  "prompt c = prompt_head @ take 2000 c @ prompt_tail
   \<and> length (take 2000 c) \<le> 2000
   \<and> parts_text (request b c d) = prompt c
   \<and> (blobToBase64 pf b = Inr d \<longrightarrow>
        map parts_text (fst (classifyAudioWithGemini pf b c))
          = [prompt_head @ take 2000 c @ prompt_tail])
   \<and> (take 2000 c1 = take 2000 c2 \<longrightarrow>
        prompt c1 = prompt c2 \<and> parts_text (request b c1 d) = parts_text (request b c2 d))"
  by (simp add: prompt_def substring0_def request_def classify_fst)

theorem C8_prompt_truncation_witness:
  "long_context ''import librosa'' \<noteq> long_context ''import torch''
   \<and> take 2000 (long_context ''import librosa'') = take 2000 (long_context ''import torch'')
   \<and> prompt (long_context ''import librosa'') = prompt (long_context ''import torch'')
   \<and> blobToBase64 (platform_replying Rejected) clip = Inr (Some ''GkXfow=='')
   \<and> map parts_text (fst (classifyAudioWithGemini (platform_replying Rejected) clip
          (long_context ''import librosa'')))
       = [prompt_head @ replicate 2000 CHR ''#'' @ prompt_tail]"
  using C8_prompt_truncation [where ?c1.0 = "long_context ''import librosa''"
      and ?c2.0 = "long_context ''import torch''" and c = "long_context ''import librosa''"
      and pf = "platform_replying Rejected" and b = clip and d = "Some ''GkXfow==''"]
    blobToBase64_replying [of Rejected clip]
  by (simp add: long_context_def prompt_def substring0_def)

text \<open>
  Claim C10. The inline-data MIME type of the request is \<open>audio/wav\<close> for a blob whose
  type is the empty string and the blob's own type otherwise; this is the request that
  \<open>classifyAudioWithGemini\<close> sends.
\<close>

theorem C10_mimeType:
  "(blob_type b = [] \<longrightarrow> mimeType (inlineData (request b c d)) = ''audio/wav'')
   \<and> (blob_type b \<noteq> [] \<longrightarrow> mimeType (inlineData (request b c d)) = blob_type b)
   \<and> (blobToBase64 pf b = Inr d \<longrightarrow>
        map (\<lambda>req. mimeType (inlineData req)) (fst (classifyAudioWithGemini pf b c))
          = [if blob_type b = [] then ''audio/wav'' else blob_type b])"
  by (simp add: request_def classify_fst)

theorem C10_mimeType_witness:
  "blob_type untyped_clip = []
   \<and> mimeType (inlineData (request untyped_clip ''{}'' (Some ''GkXfow==''))) = ''audio/wav''
   \<and> blob_type clip \<noteq> []
   \<and> mimeType (inlineData (request clip ''{}'' (Some ''GkXfow==''))) = ''audio/webm''
   \<and> blobToBase64 (platform_replying Rejected) untyped_clip = Inr (Some ''GkXfow=='')
   \<and> map (\<lambda>req. mimeType (inlineData req))
         (fst (classifyAudioWithGemini (platform_replying Rejected) untyped_clip ''{}''))
       = [''audio/wav'']
   \<and> map (\<lambda>req. mimeType (inlineData req))
         (fst (classifyAudioWithGemini (platform_replying Rejected) clip ''{}''))
       = [''audio/webm'']"
  using C10_mimeType [where b = untyped_clip and c = "''{}''" and d = "Some ''GkXfow==''"
      and pf = "platform_replying Rejected"]
    C10_mimeType [where b = clip and c = "''{}''" and d = "Some ''GkXfow==''"
      and pf = "platform_replying Rejected"]
    blobToBase64_replying [of Rejected untyped_clip] blobToBase64_replying [of Rejected clip]
  by (simp add: untyped_clip_def clip_def)

text \<open>
  Claim C6. Once \<open>getUserMedia\<close> has given a stream, \<open>startRecording\<close> leaves the audio
  input \<open>null\<close>. The recorder's \<open>stop\<close> handler makes the audio input one blob of type
  \<open>audio/webm\<close> whose bytes are those of the recorded chunks in order; for a stop of a
  running recorder through \<open>stopRecording\<close> these are the chunks gathered before and
  the data delivered last.
\<close>

theorem C6_recording:
  "audioFile (startRecording (Some stream) constructed started s) = None
   \<and> audioFile (fst (recorder_onstop stream (s, w)))
       = Some \<lparr>blob_type = ''audio/webm'', bytes = concat (map bytes (chunksRef s))\<rparr>
   \<and> (mediaRecorderRef s = Some recorder \<and> rec_state recorder = recording \<and> isRecording s \<longrightarrow>
        audioFile (fst (stopRecording_events last_data (s, w)))
          = Some \<lparr>blob_type = ''audio/webm'',
                  bytes = concat (map bytes (chunksRef s)) @ bytes last_data\<rparr>)"
  by (simp add: startRecording_def recorder_onstop_def new_Blob_def stopRecording_events_def
      stopRecording_def recorder_ondataavailable_def blob_size_def Let_def)

theorem C6_recording_witness:
  "audioFile ready = Some clip
   \<and> audioFile (startRecording (Some microphone) True True ready) = None
   \<and> mediaRecorderRef (recorder_ondataavailable clip while_recording)
       = Some \<lparr>rec_stream = microphone, rec_state = recording\<rparr>
   \<and> isRecording (recorder_ondataavailable clip while_recording)
   \<and> audioFile (fst (stopRecording_events untyped_clip
          (recorder_ondataavailable clip while_recording, browser_recording)))
       = Some \<lparr>blob_type = ''audio/webm'', bytes = [26, 69, 223, 163, 82, 73, 70, 70]\<rparr>"
  using C6_recording [where stream = microphone and constructed = True and started = True
      and s = ready and w = browser_recording
      and recorder = "\<lparr>rec_stream = microphone, rec_state = recording\<rparr>"
      and last_data = untyped_clip]
    C6_recording [where stream = microphone and constructed = True and started = True
      and s = "recorder_ondataavailable clip while_recording" and w = browser_recording
      and recorder = "\<lparr>rec_stream = microphone, rec_state = recording\<rparr>"
      and last_data = untyped_clip]
  by (simp add: while_recording_def ready_def startRecording_def recorder_ondataavailable_def
      blob_size_def clip_def untyped_clip_def)

text \<open>
  Claim C2, as stated, fails: the visualizer is set up for a live microphone stream with
  one track (\<open>isRecording\<close> true, the stream connected to the analyser) and torn down;
  the track is still \<open>live\<close> afterwards.
\<close>

theorem C2_teardown_counterexample:
  "prop_stream recording_props = Some microphone
   \<and> prop_isRecording recording_props
   \<and> tracks browser_recording microphone = [live]
   \<and> sources (snd (snd (effect recording_props (idle_visualizer, browser_recording)))) 1
       = Some (MediaStreamSource microphone)
   \<and> tracks (snd (snd (cleanup (effect recording_props (idle_visualizer, browser_recording)))))
        microphone = [live]
   \<and> live \<noteq> ended"
  by (simp add: recording_props_def browser_recording_def idle_visualizer_def effect_def
      initVisualizer_begin_def initVisualizer_resume_def new_effect_def draw_def cleanup_def
      close_context_def Let_def)

text \<open>
  Claim C2, amended. The teardown of the visualizer leaves the state of every track of
  every stream as it was. The tracks are stopped by the app: the recorder's \<open>stop\<close>
  handler puts every track of the recorder's stream in the \<open>ended\<close> state, and so does
  a stop of a running recorder through \<open>stopRecording\<close>.
\<close>

theorem C2_tracks:
  "tracks (snd (snd (cleanup (e, v, w)))) = tracks w
   \<and> tracks (snd (recorder_onstop stream (s, w))) stream
       = replicate (length (tracks w stream)) ended
   \<and> (mediaRecorderRef s = Some recorder \<and> rec_state recorder = recording \<and> isRecording s \<longrightarrow>
        tracks (snd (stopRecording_events last_data (s, w))) (rec_stream recorder)
          = replicate (length (tracks w (rec_stream recorder))) ended)"
  by (simp add: cleanup_tracks recorder_onstop_def stop_tracks_def stopRecording_events_def
      stopRecording_def map_replicate_const)

theorem C2_tracks_witness:
  "mediaRecorderRef while_recording = Some \<lparr>rec_stream = microphone, rec_state = recording\<rparr>
   \<and> isRecording while_recording
   \<and> tracks browser_recording microphone = [live]
   \<and> tracks (snd (stopRecording_events clip (while_recording, browser_recording))) microphone = [ended]"
  using C2_tracks [where s = while_recording and w = browser_recording
      and recorder = "\<lparr>rec_stream = microphone, rec_state = recording\<rparr>" and last_data = clip]
  by (simp add: while_recording_def ready_def startRecording_def browser_recording_def)

end
